theory Spec2Isabelle
  imports Main "HOL-Library.Monad_Syntax"
begin

section \<open>JavaScript values\<close>

text \<open>
  Strings are lists of bytes (UTF-8). A value of TypeScript type \<open>string | undefined\<close> is a
  \<open>string option\<close>, with \<open>None\<close> for \<open>undefined\<close>. An object used as a dictionary
  (\<open>Record<string, v>\<close>) is an association list in the order \<open>Object.entries\<close> enumerates it:
  every key occurs once, assigning to an existing key keeps its position, a new key goes last.
  (JavaScript enumerates keys that look like array indices first; paths and Drive ids of that form
  are outside this model.)
\<close>

abbreviation apos :: char where "apos \<equiv> CHR 0x27"
abbreviation dquote :: char where "dquote \<equiv> CHR 0x22"

definition truthy :: "string option \<Rightarrow> bool" where
  "truthy v = (case v of None \<Rightarrow> False | Some s \<Rightarrow> s \<noteq> [])"

text \<open>The text a template literal \<open>`${v}`\<close> inserts for \<open>v\<close>.\<close>

definition js_str :: "string option \<Rightarrow> string" where
  "js_str v = (case v of None \<Rightarrow> ''undefined'' | Some s \<Rightarrow> s)"

text \<open>\<open>Array.prototype.join\<close> on an array of strings.\<close>

fun join :: "string \<Rightarrow> string list \<Rightarrow> string" where
  "join sep [] = []"
| "join sep [x] = x"
| "join sep (x # y # ys) = x @ sep @ join sep (y # ys)"

text \<open>\<open>String.prototype.split\<close> with a one-character separator: never an empty array.\<close>

fun split :: "char \<Rightarrow> string \<Rightarrow> string list" where
  "split sep [] = [[]]"
| "split sep (c # cs) =
     (if c = sep then [] # split sep cs
      else (case split sep cs of [] \<Rightarrow> [[c]] | p # ps \<Rightarrow> (c # p) # ps))"

type_synonym 'v obj = "(string \<times> 'v) list"

definition obj_get :: "'v obj \<Rightarrow> string \<Rightarrow> 'v option" where
  "obj_get ob k = map_of ob k"

fun obj_set :: "'v obj \<Rightarrow> string \<Rightarrow> 'v \<Rightarrow> 'v obj" where
  "obj_set [] k v = [(k, v)]"
| "obj_set ((k', v') # kvs) k v =
     (if k' = k then (k, v) # kvs else (k', v') # obj_set kvs k v)"

definition obj_delete :: "'v obj \<Rightarrow> string \<Rightarrow> 'v obj" where
  "obj_delete ob k = filter (\<lambda>kv. fst kv \<noteq> k) ob"

definition fromEntries :: "(string \<times> 'v) list \<Rightarrow> 'v obj" where
  "fromEntries es = foldl (\<lambda>ob kv. obj_set ob (fst kv) (snd kv)) [] es"

text \<open>Decimal text of a number, as a template literal prints a non-negative integer.\<close>

function string_of_nat :: "nat \<Rightarrow> string" where
  "string_of_nat n =
     (if n < 10 then [''0123456789'' ! n]
      else string_of_nat (n div 10) @ [''0123456789'' ! (n mod 10)])"
  by pat_completeness auto
termination
  by (relation "measure (\<lambda>n. n)") auto

declare string_of_nat.simps [simp del]

text \<open>
  \<open>encodeURIComponent\<close>: every byte outside \<open>A-Z a-z 0-9 - _ . ! ~ * ' ( )\<close> becomes
  \<open>%XX\<close> with upper-case hexadecimal digits.
\<close>

definition unreserved :: "char \<Rightarrow> bool" where
  "unreserved c =
     (c \<in> set ''ABCDEFGHIJKLMNOPQRSTUVWXYZabcdefghijklmnopqrstuvwxyz0123456789-_.!~*()''
      \<or> c = apos)"

definition hex_digit :: "nat \<Rightarrow> char" where
  "hex_digit n = ''0123456789ABCDEF'' ! n"

definition encode_char :: "char \<Rightarrow> string" where
  "encode_char c =
     (if unreserved c then [c]
      else [CHR ''%'', hex_digit (of_char c div 16), hex_digit (of_char c mod 16)])"

definition encodeURIComponent :: "string \<Rightarrow> string" where
  "encodeURIComponent s = concat (map encode_char s)"


section \<open>The Drive client: query construction\<close>

text \<open>
  \<open>FileMetadata\<close>, with the members the client and the push routine read. The member
  \<open>id\<close> is \<open>file_id\<close> here, \<open>name\<close> is \<open>file_name\<close>.
\<close>

record FileMetadata =
  file_id :: string
  file_name :: string
  mimeType :: string
  properties :: "string obj"

datatype StringSearch = Exact string | Contains string | Not string

datatype DateComparison = DateEq string | DateGt string | DateLt string

datatype 'a one_or_many = One 'a | Many "'a list"

text \<open>
  A \<open>QueryMatch\<close> object is the list of its members in the order of \<open>Object.entries\<close>;
  \<open>Undefined_member\<close> is a member whose value is \<open>undefined\<close>.
\<close>

datatype member =
    Name "StringSearch one_or_many"
  | MimeType "StringSearch one_or_many"
  | Parent string
  | Starred bool
  | Query string
  | Properties "string obj"
  | ModifiedTime DateComparison
  | Undefined_member

type_synonym QueryMatch = "member list"

text \<open>The pairs \<open>[key, value]\<close> left after \<open>flatMap\<close> has dropped undefined members and
  spread array values.\<close>

datatype entry =
    EName StringSearch
  | EMimeType StringSearch
  | EParent string
  | EStarred bool
  | EQuery string
  | EProperties "string obj"
  | EModifiedTime DateComparison

definition folderMimeType :: string where
  "folderMimeType = ''application/vnd.google-apps.folder''"

fun queryHandlers :: "entry \<Rightarrow> string" where
  "queryHandlers (EName (Exact n)) = ''name='' @ [apos] @ n @ [apos]"
| "queryHandlers (EName (Contains n)) = ''name contains '' @ [apos, dquote] @ n @ [dquote, apos]"
| "queryHandlers (EName (Not n)) = ''name != '' @ [apos] @ n @ [apos]"
| "queryHandlers (EMimeType (Exact m)) = ''mimeType='' @ [apos] @ m @ [apos]"
| "queryHandlers (EMimeType (Contains m)) = ''mimeType contains '' @ [apos] @ m @ [apos]"
| "queryHandlers (EMimeType (Not m)) = ''mimeType != '' @ [apos] @ m @ [apos]"
| "queryHandlers (EParent p) = [apos] @ p @ [apos] @ '' in parents''"
| "queryHandlers (EStarred b) = ''starred='' @ (if b then ''true'' else ''false'')"
| "queryHandlers (EQuery q) = ''fullText contains '' @ [apos] @ q @ [apos]"
| "queryHandlers (EProperties ps) =
     join '','' (map (\<lambda>kv. ''properties has { key='' @ [apos] @ fst kv @ [apos]
                            @ '' and value='' @ [apos] @ snd kv @ [apos] @ '' }'') ps)"
| "queryHandlers (EModifiedTime (DateEq d)) = ''modifiedTime = '' @ [apos] @ d @ [apos]"
| "queryHandlers (EModifiedTime (DateGt d)) = ''modifiedTime > '' @ [apos] @ d @ [apos]"
| "queryHandlers (EModifiedTime (DateLt d)) = ''modifiedTime < '' @ [apos] @ d @ [apos]"

fun member_entries :: "member \<Rightarrow> entry list" where
  "member_entries (Name (One v)) = [EName v]"
| "member_entries (Name (Many vs)) = map EName vs"
| "member_entries (MimeType (One v)) = [EMimeType v]"
| "member_entries (MimeType (Many vs)) = map EMimeType vs"
| "member_entries (Parent p) = [EParent p]"
| "member_entries (Starred b) = [EStarred b]"
| "member_entries (Query q) = [EQuery q]"
| "member_entries (Properties ps) = [EProperties ps]"
| "member_entries (ModifiedTime d) = [EModifiedTime d]"
| "member_entries Undefined_member = []"

definition match_clause :: "QueryMatch \<Rightarrow> string" where
  "match_clause match =
     (let entries = concat (map member_entries match)
      in ''('' @ join '' and '' (map queryHandlers entries) @ '')'')"

text \<open>The text handed to \<open>encodeURIComponent\<close>, and \<open>getQuery\<close> itself.\<close>

definition query_text :: "QueryMatch list \<Rightarrow> string" where
  "query_text matches = ''('' @ join '' or '' (map match_clause matches) @ '') and trashed=false''"

definition getQuery :: "QueryMatch list \<Rightarrow> string" where
  "getQuery matches = encodeURIComponent (query_text matches)"


section \<open>The Drive client: remote calls\<close>

text \<open>
  The HTTP client (\<open>KyInstance\<close>) is an external collaborator: each kind of request the client
  sends is a function from the request and the state of the remote side to the response and the next
  state. A response that JavaScript treats as false is \<open>None\<close>. For the requests that answer
  with a JSON object the routines read only its \<open>id\<close>: the response is that member, \<open>None\<close>
  when the response is falsy or has no \<open>id\<close> (the routines return \<open>undefined\<close> in both
  cases). Timestamps (\<open>modifiedTime\<close>, the wall clock) are left out of the requests.
\<close>

record file_list =
  nextPageToken :: "string option"
  files :: "FileMetadata list"

record file_json =
  json_name :: string
  json_mimeType :: string
  json_description :: "string option"
  json_parents :: "string list option"
  json_properties :: "string obj option"

record blob =
  blob_bytes :: string
  blob_type :: string

datatype request =
    GET string
  | POST_files file_json
  | POST_upload file_json blob
  | PATCH_upload string "string obj option" blob
  | POST_batch "string list"

record 'r ky =
  get_json :: "string \<Rightarrow> 'r \<Rightarrow> file_list option \<times> 'r"
  post_files :: "file_json \<Rightarrow> 'r \<Rightarrow> string option \<times> 'r"
  post_upload :: "file_json \<Rightarrow> blob \<Rightarrow> 'r \<Rightarrow> string option \<times> 'r"
  patch_upload :: "string \<Rightarrow> string obj option \<Rightarrow> blob \<Rightarrow> 'r \<Rightarrow> string option \<times> 'r"
  post_batch :: "string list \<Rightarrow> 'r \<Rightarrow> string \<times> 'r"

text \<open>The remote side and the requests sent to it so far, oldest first.\<close>

record 'r net =
  remote :: 'r
  calls :: "request list"

definition sent :: "request \<Rightarrow> 'r \<Rightarrow> 'r net \<Rightarrow> 'r net" where
  "sent req r n = \<lparr>remote = r, calls = calls n @ [req]\<rparr>"

datatype sort_order = Ascending | Descending

text \<open>The argument of \<open>searchFiles\<close>; \<open>include\<close> is \<open>include_fields\<close> here.\<close>

record search_data =
  matches :: "QueryMatch list option"
  order :: "sort_order option"
  include_fields :: "string list option"

definition match_query :: "QueryMatch \<Rightarrow> string option" where
  "match_query match = (case [q. Query q \<leftarrow> match] of [] \<Rightarrow> None | qs \<Rightarrow> Some (last qs))"

definition default_include :: "string list" where
  "default_include = [''id'', ''name'', ''mimeType'', ''starred'', ''description'', ''properties'']"

definition paginateFiles_url :: "search_data \<Rightarrow> string option \<Rightarrow> nat \<Rightarrow> string" where
  "paginateFiles_url data pageToken pageSize =
     ''drive/v3/files?fields=nextPageToken,files(''
     @ join '','' (case include_fields data of None \<Rightarrow> default_include | Some i \<Rightarrow> i)
     @ '')&pageSize='' @ string_of_nat pageSize
     @ ''&q='' @ (case matches data of None \<Rightarrow> ''trashed=false'' | Some ms \<Rightarrow> getQuery ms)
     @ (if (case matches data of None \<Rightarrow> False
            | Some ms \<Rightarrow> find (\<lambda>m. truthy (match_query m)) ms \<noteq> None)
        then []
        else ''&orderBy=name'' @ (if order data = Some Ascending then [] else '' desc''))
     @ (if truthy pageToken then ''&pageToken='' @ js_str pageToken else [])"

definition paginateFiles ::
  "'r ky \<Rightarrow> search_data \<Rightarrow> string option \<Rightarrow> nat \<Rightarrow> 'r net \<Rightarrow> file_list option \<times> 'r net" where
  "paginateFiles drive data pageToken pageSize n =
     (let url = paginateFiles_url data pageToken pageSize
      in case get_json drive url (remote n) of (res, r) \<Rightarrow> (res, sent (GET url) r n))"

text \<open>
  The \<open>while\<close> loop of \<open>searchFiles\<close>, on the object \<open>files\<close> it updates in place. The
  server may hand out continuation tokens for ever: then the loop does not return, which is
  \<open>None\<close>. A failed page request is \<open>Some (None, _)\<close>.
\<close>

partial_function (option) searchFiles_loop ::
  "'r ky \<Rightarrow> search_data \<Rightarrow> file_list \<Rightarrow> 'r net \<Rightarrow> (FileMetadata list option \<times> 'r net) option" where
  "searchFiles_loop drive data fl n =
     (if truthy (nextPageToken fl) then
        (case paginateFiles drive data (nextPageToken fl) 1000 n of
           (None, n') \<Rightarrow> Some (None, n')
         | (Some nextPage, n') \<Rightarrow>
             searchFiles_loop drive data
               \<lparr>nextPageToken = nextPageToken nextPage, files = files fl @ files nextPage\<rparr> n')
      else Some (Some (files fl), n))"

declare searchFiles_loop.simps [code]

definition is_vault :: "FileMetadata \<Rightarrow> bool" where
  "is_vault f = (obj_get (properties f) ''obsidian'' = Some ''vault'')"

definition searchFiles ::
  "'r ky \<Rightarrow> search_data \<Rightarrow> bool \<Rightarrow> 'r net \<Rightarrow> (FileMetadata list option \<times> 'r net) option" where
  "searchFiles drive data includeObsidian n =
     (case paginateFiles drive data None 1000 n of
        (None, n') \<Rightarrow> Some (None, n')
      | (Some fl, n') \<Rightarrow>
          (case searchFiles_loop drive data fl n' of
             None \<Rightarrow> None
           | Some (None, n'') \<Rightarrow> Some (None, n'')
           | Some (Some fs, n'') \<Rightarrow>
               Some (Some (if includeObsidian then fs else filter (\<lambda>f. \<not> is_vault f) fs), n'')))"

definition matches_only :: "QueryMatch list \<Rightarrow> search_data" where
  "matches_only ms = \<lparr>matches = Some ms, order = None, include_fields = None\<rparr>"

definition vault_query :: search_data where
  "vault_query = matches_only [[Properties [(''obsidian'', ''vault'')]]]"

definition obsidian_folder :: file_json where
  "obsidian_folder =
     \<lparr>json_name = ''Obsidian'', json_mimeType = folderMimeType, json_description = None,
      json_parents = None, json_properties = Some [(''obsidian'', ''vault'')]\<rparr>"

definition getRootFolderId :: "'r ky \<Rightarrow> 'r net \<Rightarrow> (string option \<times> 'r net) option" where
  "getRootFolderId drive n =
     (case searchFiles drive vault_query True n of
        None \<Rightarrow> None
      | Some (None, n') \<Rightarrow> Some (None, n')
      | Some (Some [], n') \<Rightarrow>
          (case post_files drive obsidian_folder (remote n') of
             (rootFolder, r) \<Rightarrow> Some (rootFolder, sent (POST_files obsidian_folder) r n'))
      | Some (Some (f # fs), n') \<Rightarrow> Some (Some (file_id f), n'))"

text \<open>The argument object of \<open>createFolder\<close>; \<open>name\<close> is \<open>folder_name\<close> here.\<close>

record folder_args =
  folder_name :: string
  folder_description :: "string option"
  folder_parent :: "string option"
  folder_properties :: "string obj option"

definition createFolder_post ::
  "'r ky \<Rightarrow> folder_args \<Rightarrow> string option \<Rightarrow> 'r net \<Rightarrow> string option \<times> 'r net" where
  "createFolder_post drive args parent n =
     (let body = \<lparr>json_name = folder_name args, json_mimeType = folderMimeType,
                  json_description = folder_description args,
                  json_parents = Some [js_str parent],
                  json_properties = folder_properties args\<rparr>
      in case post_files drive body (remote n) of
           (folder, r) \<Rightarrow> (folder, sent (POST_files body) r n))"

definition createFolder :: "'r ky \<Rightarrow> folder_args \<Rightarrow> 'r net \<Rightarrow> (string option \<times> 'r net) option" where
  "createFolder drive args n =
     (if \<not> truthy (folder_parent args) then
        (case getRootFolderId drive n of
           None \<Rightarrow> None
         | Some (parent, n') \<Rightarrow>
             if \<not> truthy parent then Some (None, n')
             else Some (createFolder_post drive args parent n'))
      else Some (createFolder_post drive args (folder_parent args) n))"

text \<open>\<open>uploadFile\<close>; of the optional \<open>metadata\<close> the callers pass \<open>properties\<close>.\<close>

definition uploadFile_post ::
  "'r ky \<Rightarrow> blob \<Rightarrow> string \<Rightarrow> string option \<Rightarrow> string obj option \<Rightarrow> 'r net
     \<Rightarrow> string option \<times> 'r net" where
  "uploadFile_post drive file name parent metadata n =
     (let form = \<lparr>json_name = name, json_mimeType = blob_type file,
                  json_description = None, json_parents = Some [js_str parent],
                  json_properties = metadata\<rparr>
      in case post_upload drive form file (remote n) of
           (result, r) \<Rightarrow> (result, sent (POST_upload form file) r n))"

definition uploadFile ::
  "'r ky \<Rightarrow> blob \<Rightarrow> string \<Rightarrow> string option \<Rightarrow> string obj option \<Rightarrow> 'r net
     \<Rightarrow> (string option \<times> 'r net) option" where
  "uploadFile drive file name parent0 metadata n =
     (if \<not> truthy parent0 then
        (case getRootFolderId drive n of
           None \<Rightarrow> None
         | Some (parent, n') \<Rightarrow>
             if \<not> truthy parent then Some (None, n')
             else Some (uploadFile_post drive file name parent metadata n'))
      else Some (uploadFile_post drive file name parent0 metadata n))"

text \<open>\<open>updateFile\<close>: the id goes into the URL through a template literal.\<close>

definition updateFile ::
  "'r ky \<Rightarrow> string option \<Rightarrow> blob \<Rightarrow> string obj option \<Rightarrow> 'r net \<Rightarrow> string option \<times> 'r net" where
  "updateFile drive ident newContent newMetadata n =
     (case patch_upload drive (js_str ident) newMetadata newContent (remote n) of
        (result, r) \<Rightarrow> (result, sent (PATCH_upload (js_str ident) newMetadata newContent) r n))"

definition path_match :: "string \<Rightarrow> QueryMatch" where
  "path_match path = [Properties [(''path'', path)]]"

definition idsFromPaths ::
  "'r ky \<Rightarrow> string list \<Rightarrow> 'r net \<Rightarrow> ((string \<times> string option) list option \<times> 'r net) option" where
  "idsFromPaths drive paths n =
     (case searchFiles drive (matches_only (map path_match paths)) False n of
        None \<Rightarrow> None
      | Some (None, n') \<Rightarrow> Some (None, n')
      | Some (Some fs, n') \<Rightarrow>
          Some (Some (map (\<lambda>file. (file_id file, obj_get (properties file) ''path'')) fs), n'))"

text \<open>\<open>batchDelete\<close>: one request carrying a \<open>DELETE\<close> sub-request per id, each id printed by
  a template literal; the answer is the response text, falsy when empty.\<close>

definition batchDelete :: "'r ky \<Rightarrow> string option list \<Rightarrow> 'r net \<Rightarrow> string option \<times> 'r net" where
  "batchDelete drive ids n =
     (case post_batch drive (map js_str ids) (remote n) of
        (result, r) \<Rightarrow>
          (if result = [] then None else Some result, sent (POST_batch (map js_str ids)) r n))"


section \<open>The plugin state and its collaborators\<close>

datatype operation = Create | Delete | Modify

datatype file_kind = TFile | TFolder

text \<open>
  A \<open>TAbstractFile\<close> of the host application: \<open>tf_parent\<close> is the path of its parent
  folder, \<open>None\<close> when \<open>parent\<close> is \<open>null\<close>.
\<close>

record TAbstractFile =
  tf_path :: string
  tf_name :: string
  tf_parent :: "string option"
  tf_kind :: file_kind

text \<open>
  The local vault and its adapter, read by the push routines; both belong to the host
  application. \<open>readBinary\<close> is given the path of the file it reads. \<open>getFileByPath\<close>
  is the host's lookup of a file: \<open>null\<close> when nothing is at the path or a folder is.
\<close>

record vault =
  getAbstractFileByPath :: "string \<Rightarrow> TAbstractFile option"
  readBinary :: "string \<Rightarrow> string"
  adapter_readBinary :: "string \<Rightarrow> string"
  adapter_exists :: "string option \<Rightarrow> bool"
  configDir :: string

definition getFileByPath :: "vault \<Rightarrow> string \<Rightarrow> TAbstractFile option" where
  "getFileByPath v p =
     (case getAbstractFileByPath v p of
        None \<Rightarrow> None
      | Some f \<Rightarrow> if tf_kind f = TFile then Some f else None)"

datatype notice = Notice string | SetMessage string

text \<open>
  The plugin object \<open>t\<close>: the remote side it talks to, the single-flight flag, the two
  persisted settings, the notices shown so far (oldest first) and the vault.
\<close>

record 'r plugin =
  net :: "'r net"
  syncing :: bool
  operations :: "operation obj"
  driveIdToPath :: "string obj"
  notices :: "notice list"
  vault :: vault

definition notify :: "string \<Rightarrow> 'r plugin \<Rightarrow> 'r plugin" where
  "notify msg t = t\<lparr>notices := notices t @ [Notice msg]\<rparr>"

definition setMessage :: "string \<Rightarrow> 'r plugin \<Rightarrow> 'r plugin" where
  "setMessage msg t = t\<lparr>notices := notices t @ [SetMessage msg]\<rparr>"

text \<open>
  Modelled from the spec: \<open>startSync\<close> and \<open>endSync\<close> of the plugin class are not in
  src/. The spec's single-flight lock is the \<open>syncing\<close> flag that \<open>push\<close> tests:
  starting a cycle takes it, the final state \<open>Idle\<close> releases it.
\<close>

definition startSync :: "'r plugin \<Rightarrow> 'r plugin" where
  "startSync t = t\<lparr>syncing := True\<rparr>"

definition endSync :: "'r plugin \<Rightarrow> 'r plugin" where
  "endSync t = t\<lparr>syncing := False\<rparr>"

text \<open>
  What a routine is given from outside: the HTTP client, the pull routine (not in src/; its
  result is whether it returned \<open>true\<close>) and the concurrency ceiling of \<open>batchAsyncs\<close>.
\<close>

record 'r env =
  drive :: "'r ky"
  pull :: "'r plugin \<Rightarrow> (bool \<times> 'r plugin) option"
  ceiling_size :: nat

text \<open>How an \<open>async\<close> function ends: it returns, or it throws.\<close>

datatype completion = Returned | Threw string

text \<open>The local variables the batched closures share with the routine that made them.\<close>

record 'r frame =
  completed :: nat
  pathsToIds :: "string obj"
  plugin :: "'r plugin"

definition on_plugin :: "('r plugin \<Rightarrow> 'r plugin) \<Rightarrow> 'r frame \<Rightarrow> 'r frame" where
  "on_plugin f fr = fr\<lparr>plugin := f (plugin fr)\<rparr>"

definition invert :: "string obj \<Rightarrow> string obj" where
  "invert idToPath = fromEntries (map (\<lambda>kv. (snd kv, fst kv)) idToPath)"

definition depth :: "string \<Rightarrow> nat" where
  "depth p = length (split (CHR ''/'') p)"


section \<open>Bounded-concurrency batches\<close>

text \<open>
  Modelled from the spec: \<open>batchAsyncs\<close> is imported from the Drive helper but is not in
  src/. Per the spec it runs the actions in waves of at most the ceiling, and starts a wave only
  when the one before has settled. An action is a closure: started on the state of that moment
  it evaluates what it reads before its first \<open>await\<close> and gives the rest of its work. All
  actions of a wave are started before any of them goes on; their remote calls are then taken one
  action after the other, in list order (interleavings inside a wave are not modelled). A ceiling
  of 0 is read as no ceiling.
\<close>

function waves :: "nat \<Rightarrow> 'a list \<Rightarrow> 'a list list" where
  "waves c xs =
     (if xs = [] then [] else if c = 0 then [xs] else take c xs # waves c (drop c xs))"
  by pat_completeness auto
termination
  by (relation "measure (\<lambda>p. length (snd p))") auto

declare waves.simps [simp del]

fun settle :: "('s \<Rightarrow> 's option) list \<Rightarrow> 's \<Rightarrow> 's option" where
  "settle [] s = Some s"
| "settle (k # ks) s = (case k s of None \<Rightarrow> None | Some s' \<Rightarrow> settle ks s')"

fun run_waves :: "('s \<Rightarrow> 's \<Rightarrow> 's option) list list \<Rightarrow> 's \<Rightarrow> 's option" where
  "run_waves [] s = Some s"
| "run_waves (w # ws) s =
     (case settle (map (\<lambda>action. action s) w) s of
        None \<Rightarrow> None
      | Some s' \<Rightarrow> run_waves ws s')"

definition batchAsyncs :: "nat \<Rightarrow> ('s \<Rightarrow> 's \<Rightarrow> 's option) list \<Rightarrow> 's \<Rightarrow> 's option" where
  "batchAsyncs c actions s = run_waves (waves c actions) s"

text \<open>A \<open>for (const batch of batches) await ...\<close> loop.\<close>

fun for_each :: "('b \<Rightarrow> 's \<Rightarrow> 's option) \<Rightarrow> 'b list \<Rightarrow> 's \<Rightarrow> 's option" where
  "for_each body [] s = Some s"
| "for_each body (b # bs) s =
     (case body b s of None \<Rightarrow> None | Some s' \<Rightarrow> for_each body bs s')"


section \<open>push (src/helpers/push.ts)\<close>

subsection \<open>Delete phase\<close>

text \<open>The result says whether \<open>push\<close> goes on (\<open>True\<close>) or has returned.\<close>

definition push_deletes :: "('r, 'z) env_scheme \<Rightarrow> string list \<Rightarrow> 'r plugin \<Rightarrow> (bool \<times> 'r plugin) option" where
  "push_deletes env deletes t =
     (if deletes = [] then Some (True, t)
      else
        (case idsFromPaths (drive env) deletes (net t) of
           None \<Rightarrow> None
         | Some (None, n') \<Rightarrow>
             Some (False, notify ''An error occurred fetching Google Drive files.'' (t\<lparr>net := n'\<rparr>))
         | Some (Some ids, n') \<Rightarrow>
             if ids = [] then Some (True, t\<lparr>net := n'\<rparr>)
             else
               (case batchDelete (drive env) (map (\<lambda>ip. Some (fst ip)) ids) n' of
                  (None, n'') \<Rightarrow>
                    Some (False,
                      notify ''An error occurred deleting Google Drive files.'' (t\<lparr>net := n''\<rparr>))
                | (Some deleteRequest, n'') \<Rightarrow>
                    Some (True,
                      t\<lparr>net := n'',
                        driveIdToPath := foldl obj_delete (driveIdToPath t) (map fst ids)\<rparr>))))"

subsection \<open>Create phase\<close>

text \<open>
  \<open>new Array(len).fill([])\<close> evaluates the array literal once: every slot of \<open>batches\<close>
  holds a reference to the same array object. The store below maps an address to the contents of
  the array object there; \<open>batches\<close> is a list of addresses. \<open>Math.max()\<close> of no
  argument is \<open>-Infinity\<close>, for which \<open>new Array\<close> throws.
\<close>

type_synonym 'a store = "'a list list"

definition alloc :: "'a store \<Rightarrow> nat \<times> 'a store" where
  "alloc st = (length st, st @ [[]])"

definition array_push :: "'a store \<Rightarrow> nat \<Rightarrow> 'a \<Rightarrow> 'a store" where
  "array_push st a x = st[a := st ! a @ [x]]"

fun fill_batches ::
  "nat list \<Rightarrow> TAbstractFile list \<Rightarrow> TAbstractFile store \<Rightarrow> string + TAbstractFile store" where
  "fill_batches batches [] st = Inr st"
| "fill_batches batches (folder # folders) st =
     (let i = depth (tf_path folder) - 1
      in if i < length batches
         then fill_batches batches folders (array_push st (batches ! i) folder)
         else Inl ''TypeError: Cannot read properties of undefined'')"

definition folder_batches :: "TAbstractFile list \<Rightarrow> string + TAbstractFile list list" where
  "folder_batches folders =
     (if folders = [] then Inl ''RangeError: Invalid array length''
      else
        (let len = foldr max (map (\<lambda>f. depth (tf_path f)) folders) 0;
             (a, st) = alloc [];
             batches = replicate len a
         in case fill_batches batches folders st of
              Inl e \<Rightarrow> Inl e
            | Inr st' \<Rightarrow> Inr (map (\<lambda>b. st' ! b) batches)))"

definition create_folder_action ::
  "'r ky \<Rightarrow> TAbstractFile \<Rightarrow> 'r frame \<Rightarrow> 'r frame \<Rightarrow> 'r frame option" where
  "create_folder_action d folder fr0 =
     (let args = \<lparr>folder_name = tf_name folder, folder_description = None,
                  folder_parent = (case tf_parent folder of
                                     Some pp \<Rightarrow> obj_get (pathsToIds fr0) pp
                                   | None \<Rightarrow> None),
                  folder_properties = Some [(''path'', tf_path folder)]\<rparr>
      in (\<lambda>fr.
            case createFolder d args (net (plugin fr)) of
              None \<Rightarrow> None
            | Some (ident, n') \<Rightarrow>
                if \<not> truthy ident
                then Some (on_plugin
                       (\<lambda>t. notify ''An error occurred creating Google Drive folders.''
                              (t\<lparr>net := n'\<rparr>)) fr)
                else Some ((on_plugin
                       (\<lambda>t. t\<lparr>net := n',
                               driveIdToPath :=
                                 obj_set (driveIdToPath t) (js_str ident) (tf_path folder)\<rparr>) fr)
                       \<lparr>pathsToIds := obj_set (pathsToIds fr) (tf_path folder) (js_str ident)\<rparr>)))"

definition upload_note_action ::
  "'r ky \<Rightarrow> TAbstractFile \<Rightarrow> 'r frame \<Rightarrow> 'r frame \<Rightarrow> 'r frame option" where
  "upload_note_action d note fr0 =
     (\<lambda>fr.
        let t = plugin fr;
            content = \<lparr>blob_bytes = readBinary (vault t) (tf_path note), blob_type = []\<rparr>;
            parent = (case tf_parent note of
                        Some pp \<Rightarrow> obj_get (pathsToIds fr) pp
                      | None \<Rightarrow> None)
        in case uploadFile d content (tf_name note) parent (Some [(''path'', tf_path note)]) (net t) of
             None \<Rightarrow> None
           | Some (ident, n') \<Rightarrow>
               if \<not> truthy ident
               then Some (on_plugin
                      (\<lambda>t. notify ''An error occurred creating Google Drive files.''
                             (t\<lparr>net := n'\<rparr>)) fr)
               else Some (on_plugin
                      (\<lambda>t. t\<lparr>net := n',
                              driveIdToPath :=
                                obj_set (driveIdToPath t) (js_str ident) (tf_path note)\<rparr>) fr))"

definition folders_of :: "TAbstractFile option list \<Rightarrow> TAbstractFile list" where
  "folders_of fs = [f. Some f \<leftarrow> fs, tf_kind f = TFolder]"

definition notes_of :: "TAbstractFile option list \<Rightarrow> TAbstractFile list" where
  "notes_of fs = [f. Some f \<leftarrow> fs, tf_kind f = TFile]"

definition push_creates ::
  "('r, 'z) env_scheme \<Rightarrow> string list \<Rightarrow> 'r plugin \<Rightarrow> (completion \<times> 'r plugin) option" where
  "push_creates env creates t =
     (if creates = [] then Some (Returned, t)
      else
        (let fs = map (getAbstractFileByPath (vault t)) creates;
             fr = \<lparr>completed = 0, pathsToIds = invert (driveIdToPath t), plugin = t\<rparr>
         in case folder_batches (folders_of fs) of
              Inl e \<Rightarrow> Some (Threw e, t)
            | Inr batches \<Rightarrow>
                (case for_each
                        (\<lambda>batch. batchAsyncs (ceiling_size env)
                                   (map (create_folder_action (drive env)) batch))
                        batches fr of
                   None \<Rightarrow> None
                 | Some fr' \<Rightarrow>
                     (case batchAsyncs (ceiling_size env)
                             (map (upload_note_action (drive env)) (notes_of fs)) fr' of
                        None \<Rightarrow> None
                      | Some fr'' \<Rightarrow> Some (Returned, plugin fr'')))))"

subsection \<open>Modify phase\<close>

definition modify_action ::
  "'r ky \<Rightarrow> string obj \<Rightarrow> TAbstractFile \<Rightarrow> 'r frame \<Rightarrow> 'r frame \<Rightarrow> 'r frame option" where
  "modify_action d pathToId file fr0 =
     (let ident = obj_get pathToId (tf_path file)
      in (\<lambda>fr.
            let t = plugin fr;
                content = \<lparr>blob_bytes = readBinary (vault t) (tf_path file), blob_type = []\<rparr>
            in case updateFile d ident content None (net t) of
                 (res, n') \<Rightarrow>
                   if \<not> truthy res
                   then Some (on_plugin
                          (\<lambda>t. notify ''An error occurred modifying Google Drive files.''
                                 (t\<lparr>net := n'\<rparr>)) fr)
                   else Some (on_plugin (\<lambda>t. t\<lparr>net := n'\<rparr>) fr)))"

definition modified_files :: "vault \<Rightarrow> string list \<Rightarrow> TAbstractFile list" where
  "modified_files v modifies = [f. Some f \<leftarrow> map (getFileByPath v) modifies, tf_kind f = TFile]"

definition push_modifies :: "('r, 'z) env_scheme \<Rightarrow> string list \<Rightarrow> 'r plugin \<Rightarrow> 'r plugin option" where
  "push_modifies env modifies t =
     (if modifies = [] then Some t
      else
        (let fs = modified_files (vault t) modifies;
             pathToId = invert (driveIdToPath t);
             fr = \<lparr>completed = 0, pathsToIds = pathToId, plugin = t\<rparr>
         in map_option plugin
              (batchAsyncs (ceiling_size env) (map (modify_action (drive env) pathToId) fs) fr)))"

subsection \<open>The routine\<close>

definition paths_with :: "operation \<Rightarrow> operation obj \<Rightarrow> string list" where
  "paths_with op ops = map fst (filter (\<lambda>po. snd po = op) ops)"

definition push :: "('r, 'z) env_scheme \<Rightarrow> 'r plugin \<Rightarrow> (completion \<times> 'r plugin) option" where
  "push env t0 =
     (if syncing t0 then Some (Returned, t0)
      else
        (case pull env (startSync t0) of
           None \<Rightarrow> None
         | Some (pulledFiles, t1) \<Rightarrow>
             (let ops = operations t1 in
              case push_deletes env (paths_with Delete ops) t1 of
                None \<Rightarrow> None
              | Some (False, t2) \<Rightarrow> Some (Returned, t2)
              | Some (True, t2) \<Rightarrow>
                  (case push_creates env (paths_with Create ops) t2 of
                     None \<Rightarrow> None
                   | Some (Threw e, t3) \<Rightarrow> Some (Threw e, t3)
                   | Some (Returned, t3) \<Rightarrow>
                       (case push_modifies env (paths_with Modify ops) t3 of
                          None \<Rightarrow> None
                        | Some t4 \<Rightarrow>
                            (let t5 = endSync (t4\<lparr>operations := []\<rparr>)
                             in Some (Returned,
                                  notify
                                    (if pulledFiles
                                     then ''Sync complete, but some files were pulled from Google Drive, so you should reload Obsidian.''
                                     else ''Sync complete!'') t5)))))))"


section \<open>push behind the confirmation dialog (src/unnamed/part_001)\<close>

text \<open>
  The second \<open>push\<close> of the sources opens a confirmation dialog first and also synchronises
  the configuration files; it is \<open>push_modal\<close> here. It is given, besides what the first
  routine is given: the dialog (whether the user confirmed, and the plugin state the dialog's undo
  buttons left; the sorted list \<open>initialOperations\<close> is only shown there), and the helpers
  it imports that are not in src/.
\<close>

record 'r modal_env = "'r env" +
  confirm :: "'r plugin \<Rightarrow> (bool \<times> 'r plugin) option"
  getConfigFilesToSync :: "'r plugin \<Rightarrow> (string list \<times> 'r plugin) option"
  fileNameFromPath :: "string \<Rightarrow> string"
  getSyncMessage :: "nat \<Rightarrow> nat \<Rightarrow> nat \<Rightarrow> nat \<Rightarrow> string"
  settings_json :: "'r plugin \<Rightarrow> string"

text \<open>
  Modelled from the spec: \<open>foldersToBatches\<close> is not in src/. Per the spec batch \<open>k\<close>
  holds every folder whose path has exactly \<open>k\<close> segments.
\<close>

definition foldersToBatches :: "('a \<Rightarrow> string) \<Rightarrow> 'a list \<Rightarrow> 'a list list" where
  "foldersToBatches path_of folders =
     map (\<lambda>k. filter (\<lambda>f. depth (path_of f) = k) folders)
       [1 ..< Suc (foldr max (map (\<lambda>f. depth (path_of f)) folders) 0)]"

subsection \<open>Delete phase\<close>

definition config_query :: search_data where
  "config_query =
     \<lparr>matches = Some [[Properties [(''config'', ''true'')]]], order = None,
      include_fields = Some [''properties'']\<rparr>"

definition push_modal_deletes ::
  "('r, 'z) env_scheme \<Rightarrow> string list \<Rightarrow> string obj \<Rightarrow> 'r plugin \<Rightarrow> (bool \<times> 'r plugin) option" where
  "push_modal_deletes env deletes0 p2i t =
     (case searchFiles (drive env) config_query False (net t) of
        None \<Rightarrow> None
      | Some (None, n') \<Rightarrow>
          Some (False, notify ''An error occurred fetching Google Drive files.'' (t\<lparr>net := n'\<rparr>))
      | Some (Some configOnDrive, n') \<Rightarrow>
          (let deletes =
                 deletes0 @
                 map js_str
                   (filter (\<lambda>p. \<not> adapter_exists (vault t) p)
                      (map (\<lambda>f. obj_get (properties f) ''path'') configOnDrive))
           in if deletes = [] then Some (True, t\<lparr>net := n'\<rparr>)
              else
                (case batchDelete (drive env) (map (obj_get p2i) deletes) n' of
                   (None, n'') \<Rightarrow>
                     Some (False,
                       notify ''An error occurred deleting Google Drive files.'' (t\<lparr>net := n''\<rparr>))
                 | (Some deleteRequest, n'') \<Rightarrow>
                     Some (True,
                       t\<lparr>net := n'',
                         driveIdToPath := foldl obj_delete (driveIdToPath t) deletes\<rparr>))))"

subsection \<open>Create phase\<close>

definition modal_folder_action ::
  "('r, 'z) modal_env_scheme \<Rightarrow> nat \<Rightarrow> TAbstractFile \<Rightarrow> 'r frame \<Rightarrow> 'r frame \<Rightarrow> 'r frame option" where
  "modal_folder_action env n_files folder fr0 =
     (let args = \<lparr>folder_name = tf_name folder, folder_description = None,
                  folder_parent = (case tf_parent folder of
                                     Some pp \<Rightarrow> obj_get (pathsToIds fr0) pp
                                   | None \<Rightarrow> None),
                  folder_properties = Some [(''path'', tf_path folder)]\<rparr>
      in (\<lambda>fr.
            case createFolder (drive env) args (net (plugin fr)) of
              None \<Rightarrow> None
            | Some (ident, n') \<Rightarrow>
                if \<not> truthy ident
                then Some (on_plugin
                       (\<lambda>t. notify ''An error occurred creating Google Drive folders.''
                              (t\<lparr>net := n'\<rparr>)) fr)
                else Some ((on_plugin
                       (\<lambda>t. (setMessage (getSyncMessage env 33 66 (Suc (completed fr)) n_files)
                                (t\<lparr>net := n'\<rparr>))
                              \<lparr>driveIdToPath :=
                                 obj_set (driveIdToPath t) (js_str ident) (tf_path folder)\<rparr>) fr)
                       \<lparr>completed := Suc (completed fr),
                        pathsToIds := obj_set (pathsToIds fr) (tf_path folder) (js_str ident)\<rparr>)))"

definition modal_note_action ::
  "('r, 'z) modal_env_scheme \<Rightarrow> nat \<Rightarrow> TAbstractFile \<Rightarrow> 'r frame \<Rightarrow> 'r frame \<Rightarrow> 'r frame option" where
  "modal_note_action env n_files note fr0 =
     (\<lambda>fr.
        let t = plugin fr;
            content = \<lparr>blob_bytes = readBinary (vault t) (tf_path note), blob_type = []\<rparr>;
            parent = (case tf_parent note of
                        Some pp \<Rightarrow> obj_get (pathsToIds fr) pp
                      | None \<Rightarrow> None)
        in case uploadFile (drive env) content (tf_name note) parent
                  (Some [(''path'', tf_path note)]) (net t) of
             None \<Rightarrow> None
           | Some (ident, n') \<Rightarrow>
               if \<not> truthy ident
               then Some (on_plugin
                      (\<lambda>t. notify ''An error occurred creating Google Drive files.''
                             (t\<lparr>net := n'\<rparr>)) fr)
               else Some ((on_plugin
                      (\<lambda>t. (setMessage (getSyncMessage env 33 66 (Suc (completed fr)) n_files)
                               (t\<lparr>net := n'\<rparr>))
                             \<lparr>driveIdToPath :=
                                obj_set (driveIdToPath t) (js_str ident) (tf_path note)\<rparr>) fr)
                      \<lparr>completed := Suc (completed fr)\<rparr>))"

definition push_modal_creates ::
  "('r, 'z) modal_env_scheme \<Rightarrow> string list \<Rightarrow> 'r frame \<Rightarrow> 'r frame option" where
  "push_modal_creates env creates fr =
     (if creates = [] then Some fr
      else
        (let fs = map (getAbstractFileByPath (vault (plugin fr))) creates;
             fr0 = fr\<lparr>completed := 0\<rparr>;
             folders = folders_of fs
         in case (if folders = [] then Some fr0
                  else for_each
                         (\<lambda>batch. batchAsyncs (ceiling_size env)
                                    (map (modal_folder_action env (length fs)) batch))
                         (foldersToBatches tf_path folders) fr0) of
              None \<Rightarrow> None
            | Some fr' \<Rightarrow>
                batchAsyncs (ceiling_size env)
                  (map (modal_note_action env (length fs)) (notes_of fs)) fr'))"

subsection \<open>Modify phase\<close>

definition modal_modify_action ::
  "('r, 'z) modal_env_scheme \<Rightarrow> nat \<Rightarrow> string obj \<Rightarrow> TAbstractFile
     \<Rightarrow> 'r frame \<Rightarrow> 'r frame \<Rightarrow> 'r frame option" where
  "modal_modify_action env n_files pathToId file fr0 =
     (let ident = obj_get pathToId (tf_path file)
      in (\<lambda>fr.
            let t = plugin fr;
                content = \<lparr>blob_bytes = readBinary (vault t) (tf_path file), blob_type = []\<rparr>
            in case updateFile (drive env) ident content None (net t) of
                 (res, n') \<Rightarrow>
                   if \<not> truthy res
                   then Some (on_plugin
                          (\<lambda>t. notify ''An error occurred modifying Google Drive files.''
                                 (t\<lparr>net := n'\<rparr>)) fr)
                   else Some ((on_plugin
                          (\<lambda>t. setMessage (getSyncMessage env 66 99 (Suc (completed fr)) n_files)
                                  (t\<lparr>net := n'\<rparr>)) fr)
                          \<lparr>completed := Suc (completed fr)\<rparr>)))"

definition push_modal_modifies ::
  "('r, 'z) modal_env_scheme \<Rightarrow> string list \<Rightarrow> 'r frame \<Rightarrow> 'r frame option" where
  "push_modal_modifies env modifies fr =
     (if modifies = [] then Some fr
      else
        (let fs = modified_files (vault (plugin fr)) modifies;
             pathToId = invert (driveIdToPath (plugin fr))
         in batchAsyncs (ceiling_size env)
              (map (modal_modify_action env (length fs) pathToId) fs) (fr\<lparr>completed := 0\<rparr>)))"

subsection \<open>Configuration files\<close>

definition set_add :: "'a list \<Rightarrow> 'a \<Rightarrow> 'a list" where
  "set_add xs x = (if x \<in> set xs then xs else xs @ [x])"

definition parent_folders :: "string \<Rightarrow> string list" where
  "parent_folders p =
     (let parts = split (CHR ''/'') p
      in map (\<lambda>i. join ''/'' (take i parts)) [1 ..< length parts])"

definition parent_path :: "string \<Rightarrow> string" where
  "parent_path p = join ''/'' (butlast (split (CHR ''/'') p))"

definition config_folder_action ::
  "('r, 'z) env_scheme \<Rightarrow> string \<Rightarrow> 'r frame \<Rightarrow> 'r frame \<Rightarrow> 'r frame option" where
  "config_folder_action env folder fr0 =
     (let args = \<lparr>folder_name = last (split (CHR ''/'') folder), folder_description = None,
                  folder_parent = obj_get (pathsToIds fr0) (parent_path folder),
                  folder_properties = Some [(''path'', folder), (''config'', ''true'')]\<rparr>
      in (\<lambda>fr.
            case createFolder (drive env) args (net (plugin fr)) of
              None \<Rightarrow> None
            | Some (ident, n') \<Rightarrow>
                if \<not> truthy ident
                then Some (on_plugin
                       (\<lambda>t. notify ''An error occurred creating Google Drive folders.''
                              (t\<lparr>net := n'\<rparr>)) fr)
                else Some ((on_plugin
                       (\<lambda>t. t\<lparr>net := n',
                               driveIdToPath := obj_set (driveIdToPath t) (js_str ident) folder\<rparr>) fr)
                       \<lparr>pathsToIds := obj_set (pathsToIds fr) folder (js_str ident)\<rparr>)))"

definition config_file_action ::
  "('r, 'z) modal_env_scheme \<Rightarrow> string \<Rightarrow> 'r frame \<Rightarrow> 'r frame \<Rightarrow> 'r frame option" where
  "config_file_action env p fr0 =
     (let known = obj_get (pathsToIds fr0) p
      in (\<lambda>fr.
            let t = plugin fr;
                content = \<lparr>blob_bytes = adapter_readBinary (vault t) p, blob_type = []\<rparr>
            in if truthy known
               then (case updateFile (drive env) known content None (net t) of
                       (res, n') \<Rightarrow> Some (on_plugin (\<lambda>t. t\<lparr>net := n'\<rparr>) fr))
               else
                 (case uploadFile (drive env) content (fileNameFromPath env p)
                         (obj_get (pathsToIds fr) (parent_path p))
                         (Some [(''path'', p), (''config'', ''true'')]) (net t) of
                    None \<Rightarrow> None
                  | Some (ident, n') \<Rightarrow>
                      if \<not> truthy ident
                      then Some (on_plugin
                             (\<lambda>t. notify ''An error occurred creating Google Drive config files.''
                                    (t\<lparr>net := n'\<rparr>)) fr)
                      else Some ((on_plugin
                             (\<lambda>t. t\<lparr>net := n',
                                     driveIdToPath := obj_set (driveIdToPath t) (js_str ident) p\<rparr>) fr)
                             \<lparr>pathsToIds := obj_set (pathsToIds fr) p (js_str ident)\<rparr>))))"

definition push_modal_config :: "('r, 'z) modal_env_scheme \<Rightarrow> 'r frame \<Rightarrow> 'r frame option" where
  "push_modal_config env fr =
     (case getConfigFilesToSync env (plugin fr) of
        None \<Rightarrow> None
      | Some (configFilesToSync, t) \<Rightarrow>
          (let fr1 = fr\<lparr>plugin := t\<rparr>;
               foldersToCreate =
                 filter (\<lambda>folder. \<not> truthy (obj_get (pathsToIds fr1) folder))
                   (foldl set_add [] (concat (map parent_folders configFilesToSync)))
           in case (if foldersToCreate = [] then Some fr1
                    else for_each
                           (\<lambda>batch. batchAsyncs (ceiling_size env)
                                      (map (config_folder_action env) batch))
                           (foldersToBatches (\<lambda>p. p) foldersToCreate) fr1) of
                None \<Rightarrow> None
              | Some fr2 \<Rightarrow>
                  (case batchAsyncs (ceiling_size env)
                          (map (config_file_action env) configFilesToSync) fr2 of
                     None \<Rightarrow> None
                   | Some fr3 \<Rightarrow>
                       (let t3 = plugin fr3;
                            content = \<lparr>blob_bytes = settings_json env t3, blob_type = []\<rparr>
                        in case updateFile (drive env)
                                  (obj_get (pathsToIds fr3)
                                     (configDir (vault t3) @ ''/plugins/google-drive-sync/data.json''))
                                  content None (net t3) of
                             (res, n') \<Rightarrow> Some (fr3\<lparr>plugin := t3\<lparr>net := n'\<rparr>\<rparr>)))))"

subsection \<open>The routine\<close>

definition push_modal ::
  "('r, 'z) modal_env_scheme \<Rightarrow> 'r plugin \<Rightarrow> (completion \<times> 'r plugin) option" where
  "push_modal env t0 =
     (if syncing t0 then Some (Returned, t0)
      else
        (case confirm env t0 of
           None \<Rightarrow> None
         | Some (False, ta) \<Rightarrow> Some (Returned, ta)
         | Some (True, ta) \<Rightarrow>
             (case pull env (startSync ta) of
                None \<Rightarrow> None
              | Some (pulledFiles, t1) \<Rightarrow>
                  (let ops = operations t1;
                       p2i = invert (driveIdToPath t1)
                   in case push_modal_deletes env (paths_with Delete ops) p2i t1 of
                        None \<Rightarrow> None
                      | Some (False, t2) \<Rightarrow> Some (Returned, t2)
                      | Some (True, t2) \<Rightarrow>
                          (let fr = \<lparr>completed = 0, pathsToIds = p2i,
                                     plugin = setMessage ''Syncing (33%)'' t2\<rparr>
                           in case push_modal_creates env (paths_with Create ops) fr of
                                None \<Rightarrow> None
                              | Some fr3 \<Rightarrow>
                                  (case push_modal_modifies env (paths_with Modify ops) fr3 of
                                     None \<Rightarrow> None
                                   | Some fr4 \<Rightarrow>
                                       (case push_modal_config env fr4 of
                                          None \<Rightarrow> None
                                        | Some fr5 \<Rightarrow>
                                            Some (Returned,
                                              notify ''Sync complete!''
                                                (endSync ((plugin fr5)\<lparr>operations := []\<rparr>))))))))))"


section \<open>Pages of a remote listing\<close>

text \<open>
  What it means that a listing, asked for from the continuation token \<open>tok\<close> on, is answered
  by the responses \<open>rs\<close>: each request is the one \<open>searchFiles\<close> sends (page size 1000)
  with the token of the page before, and the responses end with the first page that has no
  continuation token, or with the first request that fails (\<open>None\<close>).
\<close>

fun listing ::
  "'r ky \<Rightarrow> search_data \<Rightarrow> string option \<Rightarrow> 'r net \<Rightarrow> file_list option list \<Rightarrow> 'r net \<Rightarrow> bool" where
  "listing d data tok n [] n' = False"
| "listing d data tok n (r # rs) n' =
     (case paginateFiles d data tok 1000 n of
        (res, n1) \<Rightarrow>
          res = r \<and>
          (case r of
             None \<Rightarrow> rs = [] \<and> n' = n1
           | Some page \<Rightarrow>
               if truthy (nextPageToken page) then listing d data (nextPageToken page) n1 rs n'
               else rs = [] \<and> n' = n1))"

definition page_files :: "file_list option \<Rightarrow> FileMetadata list" where
  "page_files r = (case r of None \<Rightarrow> [] | Some page \<Rightarrow> files page)"


section \<open>A scripted remote side\<close>

text \<open>
  A remote side for concrete runs: it answers the requests of each kind from a list, in order,
  and gives no answer when the list is used up.
\<close>

record script =
  listings :: "file_list option list"
  created :: "string option list"
  batch_texts :: "string list"

definition take_created :: "script \<Rightarrow> string option \<times> script" where
  "take_created r = (case created r of [] \<Rightarrow> (None, r) | x # xs \<Rightarrow> (x, r\<lparr>created := xs\<rparr>))"

definition scripted :: "script ky" where
  "scripted =
     \<lparr>get_json = (\<lambda>url r. case listings r of [] \<Rightarrow> (None, r) | x # xs \<Rightarrow> (x, r\<lparr>listings := xs\<rparr>)),
      post_files = (\<lambda>body. take_created),
      post_upload = (\<lambda>form file. take_created),
      patch_upload = (\<lambda>ident metadata file. take_created),
      post_batch = (\<lambda>ids r. case batch_texts r of [] \<Rightarrow> ([], r) | x # xs \<Rightarrow> (x, r\<lparr>batch_texts := xs\<rparr>))\<rparr>"

definition note_file :: "string \<Rightarrow> string \<Rightarrow> FileMetadata" where
  "note_file i p =
     \<lparr>file_id = i, file_name = p, mimeType = ''text/markdown'', properties = [(''path'', p)]\<rparr>"

definition root_file :: FileMetadata where
  "root_file = \<lparr>file_id = ''root'', file_name = ''Obsidian'', mimeType = folderMimeType,
                 properties = [(''obsidian'', ''vault'')]\<rparr>"

text \<open>A listing of three pages; the vault root is on the second.\<close>

definition three_pages :: "file_list option list" where
  "three_pages =
     [Some \<lparr>nextPageToken = Some ''t1'',
            files = [note_file ''1'' ''a.md'', note_file ''2'' ''b.md'']\<rparr>,
      Some \<lparr>nextPageToken = Some ''t2'', files = [root_file]\<rparr>,
      Some \<lparr>nextPageToken = None, files = [note_file ''3'' ''c.md'']\<rparr>]"

definition all_files :: search_data where
  "all_files = \<lparr>matches = None, order = None, include_fields = None\<rparr>"

definition three_pages_net :: "script net" where
  "three_pages_net =
     \<lparr>remote = \<lparr>listings = three_pages, created = [], batch_texts = []\<rparr>, calls = []\<rparr>"

definition three_pages_after :: "script net" where
  "three_pages_after =
     \<lparr>remote = \<lparr>listings = [], created = [], batch_texts = []\<rparr>,
      calls = [GET (paginateFiles_url all_files None 1000),
               GET (paginateFiles_url all_files (Some ''t1'') 1000),
               GET (paginateFiles_url all_files (Some ''t2'') 1000)]\<rparr>"


text \<open>Concrete remote sides: one page listing one note; the vault root listed but no answer to
  the next creation request; no vault root yet.\<close>

definition one_page_net :: "script net" where
  "one_page_net =
     \<lparr>remote = \<lparr>listings = [Some \<lparr>nextPageToken = None, files = [note_file ''1'' ''a.md'']\<rparr>],
                created = [], batch_texts = [''ok'']\<rparr>,
      calls = []\<rparr>"

definition docs_folder :: folder_args where
  "docs_folder = \<lparr>folder_name = ''docs'', folder_description = None, folder_parent = None,
                   folder_properties = Some [(''path'', ''docs'')]\<rparr>"

definition root_listed_net :: "script net" where
  "root_listed_net =
     \<lparr>remote = \<lparr>listings = [Some \<lparr>nextPageToken = None, files = [root_file]\<rparr>],
                created = [None], batch_texts = []\<rparr>,
      calls = []\<rparr>"

definition no_root_net :: "script net" where
  "no_root_net =
     \<lparr>remote = \<lparr>listings = [Some \<lparr>nextPageToken = None, files = []\<rparr>],
                created = [Some ''root'', Some ''F1''], batch_texts = []\<rparr>,
      calls = []\<rparr>"


section \<open>Concrete plugin states\<close>

text \<open>
  A vault holding the given files, a pull routine that changes nothing and reports what it is
  told to, a dialog that is confirmed, no configuration files, and plugin states that are not
  syncing.
\<close>

definition test_vault :: "TAbstractFile list \<Rightarrow> vault" where
  "test_vault fs =
     \<lparr>getAbstractFileByPath = map_of (map (\<lambda>f. (tf_path f, f)) fs),
      readBinary = (\<lambda>p. ''content of '' @ p),
      adapter_readBinary = (\<lambda>p. ''content of '' @ p),
      adapter_exists = (\<lambda>p. True),
      configDir = ''.obsidian''\<rparr>"

definition local_note :: "string \<Rightarrow> TAbstractFile" where
  "local_note p = \<lparr>tf_path = p, tf_name = p, tf_parent = Some ''/'', tf_kind = TFile\<rparr>"

definition test_env :: "bool \<Rightarrow> script env" where
  "test_env pulled = \<lparr>drive = scripted, pull = (\<lambda>t. Some (pulled, t)), ceiling_size = 5\<rparr>"

definition test_modal_env :: "bool \<Rightarrow> script modal_env" where
  "test_modal_env pulled =
     \<lparr>drive = scripted, pull = (\<lambda>t. Some (pulled, t)), ceiling_size = 5,
      confirm = (\<lambda>t. Some (True, t)),
      getConfigFilesToSync = (\<lambda>t. Some ([], t)),
      fileNameFromPath = (\<lambda>p. last (split (CHR ''/'') p)),
      getSyncMessage = (\<lambda>lo hi k n. ''Syncing''),
      settings_json = (\<lambda>t. ''{}'')\<rparr>"

definition idle_plugin :: "script \<Rightarrow> operation obj \<Rightarrow> string obj \<Rightarrow> TAbstractFile list \<Rightarrow> script plugin" where
  "idle_plugin r ops index fs =
     \<lparr>net = \<lparr>remote = r, calls = []\<rparr>, syncing = False, operations = ops,
      driveIdToPath = index, notices = [], vault = test_vault fs\<rparr>"

definition two_modifies :: "script plugin" where
  "two_modifies =
     idle_plugin \<lparr>listings = [], created = [Some ''1'', None], batch_texts = []\<rparr>
       [(''a.md'', Modify), (''b.md'', Modify)]
       [(''1'', ''a.md''), (''2'', ''b.md'')]
       [local_note ''a.md'', local_note ''b.md'']"

definition local_folder :: "string \<Rightarrow> string \<Rightarrow> string \<Rightarrow> TAbstractFile" where
  "local_folder p nm par = \<lparr>tf_path = p, tf_name = nm, tf_parent = Some par, tf_kind = TFolder\<rparr>"

definition two_deletes :: "script plugin" where
  "two_deletes =
     idle_plugin (remote one_page_net)
       [(''a.md'', Delete), (''gone.md'', Delete)]
       [(''1'', ''a.md''), (''9'', ''gone.md'')]
       []"

definition failed_search :: "script plugin" where
  "failed_search =
     idle_plugin \<lparr>listings = [None], created = [], batch_texts = [''ok'']\<rparr>
       [(''a.md'', Delete)] [(''1'', ''a.md'')] []"

definition root_page :: "file_list option" where
  "root_page = Some \<lparr>nextPageToken = None, files = [root_file]\<rparr>"

definition two_folders :: "script plugin" where
  "two_folders =
     idle_plugin
       \<lparr>listings = [root_page, root_page, root_page],
        created = [Some ''A1'', Some ''B1'', Some ''A2'', Some ''B2''], batch_texts = []\<rparr>
       [(''a'', Create), (''a/b'', Create)] []
       [local_folder ''a'' ''a'' ''/'', local_folder ''a/b'' ''b'' ''a'']"

definition one_delete :: "script plugin" where
  "one_delete =
     idle_plugin
       \<lparr>listings = [Some \<lparr>nextPageToken = None, files = []\<rparr>], created = [], batch_texts = [''ok'']\<rparr>
       [(''old.md'', Delete)] [(''id1'', ''old.md'')] []"

definition nothing_pending :: "script plugin" where
  "nothing_pending =
     idle_plugin
       \<lparr>listings = [Some \<lparr>nextPageToken = None, files = []\<rparr>], created = [], batch_texts = []\<rparr>
       [] [] []"

definition busy_plugin :: "script plugin" where
  "busy_plugin = two_modifies\<lparr>syncing := True\<rparr>"

definition failed_search_net :: "script net" where
  "failed_search_net =
     \<lparr>remote = \<lparr>listings = [], created = [], batch_texts = [''ok'']\<rparr>,
      calls = [GET (paginateFiles_url (matches_only [path_match ''a.md'']) None 1000)]\<rparr>"


section \<open>Properties of the query construction\<close>

lemma join_Cons: "join sep (x # xs) = x @ concat (map (\<lambda>y. sep @ y) xs)"
  by (induction xs arbitrary: x) auto

lemma join_cases:
  "join sep xs = (case xs of [] \<Rightarrow> [] | c # cs \<Rightarrow> c @ concat (map (\<lambda>y. sep @ y) cs))"
  by (cases xs) (simp_all only: join_Cons join.simps list.case)

text \<open>
  Claim C8. For a non-empty list of matches, \<open>getQuery\<close> is the URI encoding of the text
  \<open>(c1 or c2 or ... or cn) and trashed=false\<close>, where \<open>ci\<close> is the clause of the i-th
  match, and the clause of every match is \<open>(p1 and p2 and ... and pk)\<close>, one predicate
  \<open>pj\<close> per member of the match (an array-valued member gives one predicate per element).
\<close>

theorem getQuery_or_and_not_trashed:
  "ms \<noteq> [] \<Longrightarrow>
   getQuery ms =
     encodeURIComponent
       (''('' @ match_clause (hd ms)
        @ concat (map (\<lambda>m. '' or '' @ match_clause m) (tl ms))
        @ '') and trashed=false'')
   \<and> (\<forall>m \<in> set ms.
        match_clause m =
          ''('' @ (case map queryHandlers (concat (map member_entries m)) of
                     [] \<Rightarrow> []
                   | c # cs \<Rightarrow> c @ concat (map (\<lambda>c'. '' and '' @ c') cs)) @ '')'')"
proof
  assume "ms \<noteq> []"
  then obtain m ms' where ms: "ms = m # ms'" by (cases ms) auto
  have "join '' or '' (map match_clause ms)
        = match_clause (hd ms) @ concat (map (\<lambda>m. '' or '' @ match_clause m) (tl ms))"
    unfolding ms by (simp only: list.map join_Cons list.sel map_map comp_def)
  then show "getQuery ms =
     encodeURIComponent
       (''('' @ match_clause (hd ms)
        @ concat (map (\<lambda>m. '' or '' @ match_clause m) (tl ms))
        @ '') and trashed=false'')"
    by (simp only: getQuery_def query_text_def append_assoc)
next
  show "\<forall>m \<in> set ms.
        match_clause m =
          ''('' @ (case map queryHandlers (concat (map member_entries m)) of
                     [] \<Rightarrow> []
                   | c # cs \<Rightarrow> c @ concat (map (\<lambda>c'. '' and '' @ c') cs)) @ '')''"
    by (simp only: match_clause_def Let_def join_cases [symmetric] ball_triv simp_thms)
qed

theorem getQuery_or_and_not_trashed_witness:
  "[[Name (One (Exact ''a'')), Starred True], [Properties [(''path'', ''x'')]]] \<noteq> []
   \<and> getQuery [[Name (One (Exact ''a'')), Starred True], [Properties [(''path'', ''x'')]]]
     = encodeURIComponent
         (''((name='' @ [apos] @ ''a'' @ [apos] @ '' and starred=true) or (properties has { key=''
          @ [apos] @ ''path'' @ [apos] @ '' and value='' @ [apos] @ ''x'' @ [apos]
          @ '' })) and trashed=false'')"
  using getQuery_or_and_not_trashed
          [of "[[Name (One (Exact ''a'')), Starred True], [Properties [(''path'', ''x'')]]]"]
  by (simp add: match_clause_def)

section \<open>Properties of the paginated search\<close>

lemma searchFiles_loop_listing:
  "truthy (nextPageToken fl) \<Longrightarrow> listing d data (nextPageToken fl) n rs n' \<Longrightarrow>
   searchFiles_loop d data fl n =
     Some (if None \<in> set rs then None else Some (files fl @ concat (map page_files rs)), n')"
proof (induction rs arbitrary: fl n)
  case Nil
  then show ?case by simp
next
  case (Cons r rs)
  obtain res n1 where p: "paginateFiles d data (nextPageToken fl) 1000 n = (res, n1)"
    by (cases "paginateFiles d data (nextPageToken fl) 1000 n")
  from Cons.prems(2) p have r: "res = r" by simp
  show ?case
  proof (cases r)
    case None
    with Cons.prems p r show ?thesis
      by (subst searchFiles_loop.simps) simp
  next
    case (Some page)
    show ?thesis
    proof (cases "truthy (nextPageToken page)")
      case True
      let ?fl' = "\<lparr>nextPageToken = nextPageToken page, files = files fl @ files page\<rparr>"
      from Cons.prems(2) p r Some True have l: "listing d data (nextPageToken ?fl') n1 rs n'"
        by simp
      have t: "truthy (nextPageToken ?fl')" using True by simp
      have "searchFiles_loop d data fl n = searchFiles_loop d data ?fl' n1"
        using Cons.prems(1) p r Some by (subst searchFiles_loop.simps) simp
      also have "\<dots> = Some (if None \<in> set rs then None
                            else Some (files ?fl' @ concat (map page_files rs)), n')"
        by (rule Cons.IH [OF t l])
      finally show ?thesis using Some by (simp add: page_files_def)
    next
      case False
      with Cons.prems(2) p r Some have e: "rs = []" "n' = n1" by simp_all
      have "searchFiles_loop d data fl n
            = searchFiles_loop d data
                \<lparr>nextPageToken = nextPageToken page, files = files fl @ files page\<rparr> n1"
        using Cons.prems(1) p r Some by (subst searchFiles_loop.simps) simp
      also have "\<dots> = Some (Some (files fl @ files page), n1)"
        using False by (subst searchFiles_loop.simps) simp
      finally show ?thesis using Some e by (simp add: page_files_def)
    qed
  qed
qed

lemma three_pages_listing:
  "listing scripted all_files None three_pages_net three_pages three_pages_after"
  by (simp add: three_pages_def three_pages_net_def three_pages_after_def paginateFiles_def
        scripted_def sent_def truthy_def)

text \<open>
  Claim C5, as stated, fails: with the default \<open>includeObsidian = false\<close> the search over the
  three pages drops the vault root that the second page lists, so the result is not the
  concatenation of the pages.
\<close>

theorem searchFiles_drops_vault_root:
  "searchFiles scripted all_files False three_pages_net
     = Some (Some [note_file ''1'' ''a.md'', note_file ''2'' ''b.md'', note_file ''3'' ''c.md''],
             three_pages_after)
   \<and> concat (map page_files three_pages)
     = [note_file ''1'' ''a.md'', note_file ''2'' ''b.md'', root_file, note_file ''3'' ''c.md'']"
  by (simp add: searchFiles_def searchFiles_loop.simps three_pages_def three_pages_net_def
        three_pages_after_def paginateFiles_def scripted_def sent_def truthy_def page_files_def
        is_vault_def obj_get_def note_file_def root_file_def)

text \<open>
  Claim C5, amended. When the listing is answered by the responses \<open>rs\<close> (any number of
  pages), \<open>searchFiles\<close> returns; if one of the page requests failed it returns the failure
  signal and no list; otherwise it returns the files of all pages, concatenated in the order the
  server sent them, from which the entries marked as the vault root are removed unless the caller
  set \<open>includeObsidian\<close>.
\<close>

theorem searchFiles_all_pages:
  "listing d data None n rs n' \<Longrightarrow>
   searchFiles d data includeObsidian n =
     Some (if None \<in> set rs then None
           else Some (if includeObsidian then concat (map page_files rs)
                      else filter (\<lambda>f. \<not> is_vault f) (concat (map page_files rs))), n')"
proof (cases rs)
  case Nil
  assume "listing d data None n rs n'"
  with Nil show ?thesis by simp
next
  case (Cons r rs')
  assume l: "listing d data None n rs n'"
  obtain res n1 where p: "paginateFiles d data None 1000 n = (res, n1)"
    by (cases "paginateFiles d data None 1000 n")
  from l Cons p have r: "res = r" by simp
  show ?thesis
  proof (cases r)
    case None
    with l Cons p r show ?thesis by (simp add: searchFiles_def)
  next
    case (Some page)
    show ?thesis
    proof (cases "truthy (nextPageToken page)")
      case True
      with l Cons p r Some have "listing d data (nextPageToken page) n1 rs' n'" by simp
      from searchFiles_loop_listing [OF True this]
      show ?thesis using Cons p r Some
        by (simp add: searchFiles_def page_files_def)
    next
      case False
      with l Cons p r Some have e: "rs' = []" "n' = n1" by simp_all
      have "searchFiles_loop d data page n1 = Some (Some (files page), n1)"
        using False by (subst searchFiles_loop.simps) simp
      then show ?thesis using Cons p r Some e
        by (simp add: searchFiles_def page_files_def)
    qed
  qed
qed

theorem searchFiles_all_pages_witness:
  "listing scripted all_files None three_pages_net three_pages three_pages_after
   \<and> searchFiles scripted all_files True three_pages_net
     = Some (Some [note_file ''1'' ''a.md'', note_file ''2'' ''b.md'', root_file,
                   note_file ''3'' ''c.md''],
             three_pages_after)"
proof -
  have "concat (map page_files three_pages)
        = [note_file ''1'' ''a.md'', note_file ''2'' ''b.md'', root_file, note_file ''3'' ''c.md'']"
    and "None \<notin> set three_pages"
    by (simp_all add: three_pages_def page_files_def)
  with searchFiles_all_pages [OF three_pages_listing, of True] three_pages_listing
  show ?thesis by simp
qed

section \<open>Properties of path resolution and of the vault root\<close>

text \<open>
  Claim C9. \<open>idsFromPaths\<close> gives the absent result exactly when the search does; when the
  search gives a list, the result has one (id, path) pair per file found and nothing for a path
  that no file matched. At a concrete input, two paths are asked for, the remote side lists a
  file for one of them, and the result is a list of one pair: no failure is signalled.
\<close>

theorem idsFromPaths_omits_unmatched_paths:
  "(idsFromPaths d paths n = Some (None, n')
      \<longleftrightarrow> searchFiles d (matches_only (map path_match paths)) False n = Some (None, n'))
   \<and> (idsFromPaths d paths n = Some (Some ids, n')
      \<longleftrightarrow> (\<exists>fs. searchFiles d (matches_only (map path_match paths)) False n = Some (Some fs, n')
               \<and> ids = map (\<lambda>file. (file_id file, obj_get (properties file) ''path'')) fs))
   \<and> (idsFromPaths d paths n = None
      \<longleftrightarrow> searchFiles d (matches_only (map path_match paths)) False n = None)
   \<and> map_option fst (idsFromPaths scripted [''a.md'', ''gone.md''] one_page_net)
       = Some (Some [(''1'', Some ''a.md'')])"
proof (intro conjI)
  show "map_option fst (idsFromPaths scripted [''a.md'', ''gone.md''] one_page_net)
       = Some (Some [(''1'', Some ''a.md'')])"
    by (simp add: idsFromPaths_def searchFiles_def searchFiles_loop.simps one_page_net_def
        paginateFiles_def scripted_def sent_def truthy_def is_vault_def obj_get_def note_file_def)
qed (auto simp: idsFromPaths_def split: option.splits)

lemma createFolder_post_request:
  "createFolder_post d args root n =
     (let body = \<lparr>json_name = folder_name args, json_mimeType = folderMimeType,
                  json_description = folder_description args, json_parents = Some [js_str root],
                  json_properties = folder_properties args\<rparr>
      in (fst (post_files d body (remote n)),
          \<lparr>remote = snd (post_files d body (remote n)), calls = calls n @ [POST_files body]\<rparr>))"
  by (simp add: createFolder_post_def sent_def Let_def split: prod.splits)

lemma uploadFile_post_request:
  "uploadFile_post d file name root metadata n =
     (let form = \<lparr>json_name = name, json_mimeType = blob_type file, json_description = None,
                  json_parents = Some [js_str root], json_properties = metadata\<rparr>
      in (fst (post_upload d form file (remote n)),
          \<lparr>remote = snd (post_upload d form file (remote n)),
           calls = calls n @ [POST_upload form file]\<rparr>))"
  by (simp add: uploadFile_post_def sent_def Let_def split: prod.splits)

text \<open>
  Claim C10, as stated, fails: \<open>createFolder\<close> without a parent returns the absent result
  although the root resolution succeeded (the vault root is listed, with id \<open>root\<close>), because
  its own creation request got no answer.
\<close>

theorem createFolder_absent_with_root_resolved:
  "\<not> truthy (folder_parent docs_folder)
   \<and> map_option fst (getRootFolderId scripted root_listed_net) = Some (Some ''root'')
   \<and> map_option fst (createFolder scripted docs_folder root_listed_net) = Some None"
  by (simp add: createFolder_def createFolder_post_def getRootFolderId_def searchFiles_def
        searchFiles_loop.simps root_listed_net_def docs_folder_def take_created_def
        paginateFiles_def scripted_def sent_def truthy_def root_file_def)

text \<open>
  Claim C10, amended. Without a parent, \<open>createFolder\<close> and \<open>uploadFile\<close> search (with
  \<open>includeObsidian\<close>) for the objects marked \<open>obsidian = vault\<close>. If the search does not
  return, neither does the call; if it fails, the call returns the absent result and sends
  nothing more. If it finds objects, the id of the first is the parent. If it finds none, the
  folder \<open>Obsidian\<close> with that mark is created and the id in the answer is the parent. When
  the parent so found is empty or absent the call returns the absent result without sending its
  own request; otherwise it sends its own creation or upload request under that parent
  (\<open>createFolder_post\<close>, \<open>uploadFile_post\<close>) and returns what that request yields, which is
  absent when that request fails.
\<close>

theorem no_parent_targets_vault_root:
  "\<not> truthy parent \<Longrightarrow>
   createFolder d (args\<lparr>folder_parent := parent\<rparr>) n =
     (case searchFiles d vault_query True n of
        None \<Rightarrow> None
      | Some (None, n1) \<Rightarrow> Some (None, n1)
      | Some (Some (f # fs), n1) \<Rightarrow>
          if file_id f \<noteq> []
          then Some (createFolder_post d (args\<lparr>folder_parent := parent\<rparr>) (Some (file_id f)) n1)
          else Some (None, n1)
      | Some (Some [], n1) \<Rightarrow>
          (case post_files d obsidian_folder (remote n1) of
             (root, r) \<Rightarrow>
               if truthy root
               then Some (createFolder_post d (args\<lparr>folder_parent := parent\<rparr>) root
                            (sent (POST_files obsidian_folder) r n1))
               else Some (None, sent (POST_files obsidian_folder) r n1)))
   \<and> uploadFile d file name parent metadata n =
     (case searchFiles d vault_query True n of
        None \<Rightarrow> None
      | Some (None, n1) \<Rightarrow> Some (None, n1)
      | Some (Some (f # fs), n1) \<Rightarrow>
          if file_id f \<noteq> []
          then Some (uploadFile_post d file name (Some (file_id f)) metadata n1)
          else Some (None, n1)
      | Some (Some [], n1) \<Rightarrow>
          (case post_files d obsidian_folder (remote n1) of
             (root, r) \<Rightarrow>
               if truthy root
               then Some (uploadFile_post d file name root metadata
                            (sent (POST_files obsidian_folder) r n1))
               else Some (None, sent (POST_files obsidian_folder) r n1)))"
  by (auto simp: createFolder_def uploadFile_def getRootFolderId_def truthy_def
        split: option.splits list.splits prod.splits)

theorem no_parent_targets_vault_root_witness:
  "\<not> truthy (None :: string option)
   \<and> map_option fst (createFolder scripted docs_folder no_root_net) = Some (Some ''F1'')
   \<and> map_option (calls \<circ> snd) (createFolder scripted docs_folder no_root_net)
     = Some [GET (paginateFiles_url vault_query None 1000),
             POST_files obsidian_folder,
             POST_files \<lparr>json_name = ''docs'', json_mimeType = folderMimeType,
                         json_description = None, json_parents = Some [''root''],
                         json_properties = Some [(''path'', ''docs'')]\<rparr>]"
proof -
  have s: "searchFiles scripted vault_query True no_root_net
        = Some (Some [], \<lparr>remote = \<lparr>listings = [], created = [Some ''root'', Some ''F1''],
                                    batch_texts = []\<rparr>,
                          calls = [GET (paginateFiles_url vault_query None 1000)]\<rparr>)"
    by (simp add: searchFiles_def searchFiles_loop.simps no_root_net_def
        paginateFiles_def scripted_def sent_def truthy_def)
  have a: "docs_folder\<lparr>folder_parent := None\<rparr> = docs_folder" by (simp add: docs_folder_def)
  have t: "\<not> truthy (None :: string option)" by (simp add: truthy_def)
  have "createFolder scripted docs_folder no_root_net
        = Some (createFolder_post scripted docs_folder (Some ''root'')
            \<lparr>remote = \<lparr>listings = [], created = [Some ''F1''], batch_texts = []\<rparr>,
             calls = [GET (paginateFiles_url vault_query None 1000), POST_files obsidian_folder]\<rparr>)"
    using no_parent_targets_vault_root
            [OF t, where d = scripted and args = docs_folder and n = no_root_net, THEN conjunct1]
    unfolding a s by (simp add: scripted_def take_created_def sent_def truthy_def)
  then show ?thesis
    using t by (simp add: createFolder_post_def scripted_def take_created_def sent_def
        docs_folder_def js_str_def)
qed

section \<open>Properties of the batches\<close>

lemma settle_total:
  "(\<And>k s. k \<in> set ks \<Longrightarrow> \<exists>s'. k s = Some s') \<Longrightarrow> \<exists>s'. settle ks s = Some s'"
proof (induction ks arbitrary: s)
  case Nil
  show ?case by simp
next
  case (Cons k ks)
  from Cons.prems [of k s] obtain s1 where k: "k s = Some s1" by auto
  have "\<exists>s'. settle ks s1 = Some s'"
  proof (rule Cons.IH)
    fix k' s2
    assume "k' \<in> set ks"
    then show "\<exists>s'. k' s2 = Some s'" using Cons.prems [of k' s2] by simp
  qed
  with k show ?case by simp
qed

lemma run_waves_total:
  "(\<And>w a s0 s. w \<in> set ws \<Longrightarrow> a \<in> set w \<Longrightarrow> \<exists>s'. a s0 s = Some s')
   \<Longrightarrow> \<exists>s'. run_waves ws s = Some s'"
proof (induction ws arbitrary: s)
  case Nil
  show ?case by simp
next
  case (Cons w ws)
  have "\<exists>s1. settle (map (\<lambda>action. action s) w) s = Some s1"
  proof (rule settle_total)
    fix k s2
    assume "k \<in> set (map (\<lambda>action. action s) w)"
    then obtain a where "a \<in> set w" "k = a s" by auto
    with Cons.prems [of w a s s2] show "\<exists>s'. k s2 = Some s'" by simp
  qed
  then obtain s1 where w: "settle (map (\<lambda>action. action s) w) s = Some s1" ..
  have "\<exists>s'. run_waves ws s1 = Some s'"
  proof (rule Cons.IH)
    fix w' a s0 s2
    assume "w' \<in> set ws" "a \<in> set w'"
    then show "\<exists>s'. a s0 s2 = Some s'" using Cons.prems [of w' a s0 s2] by simp
  qed
  with w show ?case by simp
qed

lemma waves_subset: "w \<in> set (waves c xs) \<Longrightarrow> set w \<subseteq> set xs"
proof (induction c xs rule: waves.induct)
  case (1 c xs)
  show ?case
  proof (cases "xs = [] \<or> c = 0")
    case True
    with "1.prems" show ?thesis by (auto simp: waves.simps [of c xs] split: if_splits)
  next
    case False
    with "1.prems" have "w = take c xs \<or> w \<in> set (waves c (drop c xs))"
      by (simp add: waves.simps [of c xs])
    then show ?thesis
    proof
      assume "w = take c xs"
      then show ?thesis by (auto dest: in_set_takeD)
    next
      assume "w \<in> set (waves c (drop c xs))"
      with "1.IH" False have "set w \<subseteq> set (drop c xs)" by simp
      then show ?thesis by (auto dest: in_set_dropD)
    qed
  qed
qed

lemma batchAsyncs_total:
  assumes "\<And>a s0 s. a \<in> set actions \<Longrightarrow> \<exists>s'. a s0 s = Some s'"
  shows "\<exists>s'. batchAsyncs c actions s = Some s'"
  unfolding batchAsyncs_def
  by (rule run_waves_total) (use assms waves_subset in blast)

lemma modify_action_total: "\<exists>fr'. modify_action d pathToId file fr0 fr = Some fr'"
  by (simp add: modify_action_def Let_def split: prod.splits)

lemma push_modifies_total: "\<exists>t'. push_modifies env modifies t = Some t'"
proof (cases "modifies = []")
  case True
  then show ?thesis by (simp add: push_modifies_def)
next
  case False
  let ?fr = "\<lparr>completed = 0, pathsToIds = invert (driveIdToPath t), plugin = t\<rparr>"
  have "\<exists>fr'. batchAsyncs (ceiling_size env)
          (map (modify_action (drive env) (invert (driveIdToPath t)))
             (modified_files (vault t) modifies)) ?fr = Some fr'"
    by (rule batchAsyncs_total) (auto simp: modify_action_total)
  with False show ?thesis by (auto simp: push_modifies_def Let_def)
qed


section \<open>Properties of push\<close>

subsection \<open>The single-flight guard\<close>

text \<open>
  Claim C7. While \<open>syncing\<close> is set, either push routine returns at once: the result is the
  plugin state it was given, so no request has been sent, no notice shown, and the operation log,
  the index and every other part of the state are as before (nothing is queued for later).
\<close>

theorem push_is_noop_while_syncing:
  "syncing t \<Longrightarrow> push env t = Some (Returned, t) \<and> push_modal menv t = Some (Returned, t)"
  by (simp add: push_def push_modal_def)

theorem push_is_noop_while_syncing_witness:
  "syncing busy_plugin
   \<and> push (test_env False) busy_plugin = Some (Returned, busy_plugin)
   \<and> push_modal (test_modal_env False) busy_plugin = Some (Returned, busy_plugin)"
proof -
  have s: "syncing busy_plugin" by (simp add: busy_plugin_def)
  from push_is_noop_while_syncing [OF s, of "test_env False" "test_modal_env False"] s
  show ?thesis by simp
qed


subsection \<open>The operation log after failed modifications\<close>

text \<open>
  Claim C1, as stated, fails. Two modifications are pending; the update of \<open>a.md\<close> is
  answered with an id, the update of \<open>b.md\<close> is not. After the cycle the log is empty: the
  entry of \<open>b.md\<close> is cleared although its update failed (the failure is only a notice).
\<close>

theorem failed_modify_is_cleared:
  "map_option (\<lambda>ct. (operations (snd ct), notices (snd ct), calls (net (snd ct))))
     (push (test_env False) two_modifies)
   = Some ([],
           [Notice ''An error occurred modifying Google Drive files.'', Notice ''Sync complete!''],
           [PATCH_upload ''1'' None \<lparr>blob_bytes = ''content of a.md'', blob_type = []\<rparr>,
            PATCH_upload ''2'' None \<lparr>blob_bytes = ''content of b.md'', blob_type = []\<rparr>])"
  by code_simp

text \<open>
  Claim C1, amended. In every cycle in which the delete phase lets \<open>push\<close> go on and the
  create phase returns, whatever the remote side answers to the updates of the modify phase,
  \<open>push\<close> returns and the operation log is empty afterwards: the log is cleared as a whole,
  the entries whose update returned no id included.
\<close>

theorem push_clears_whole_log:
  "\<not> syncing t0 \<Longrightarrow> pull env (startSync t0) = Some (pulledFiles, t1) \<Longrightarrow>
   push_deletes env (paths_with Delete (operations t1)) t1 = Some (True, t2) \<Longrightarrow>
   push_creates env (paths_with Create (operations t1)) t2 = Some (Returned, t3) \<Longrightarrow>
   \<exists>t'. push env t0 = Some (Returned, t') \<and> operations t' = []"
proof -
  assume a: "\<not> syncing t0" "pull env (startSync t0) = Some (pulledFiles, t1)"
    "push_deletes env (paths_with Delete (operations t1)) t1 = Some (True, t2)"
    "push_creates env (paths_with Create (operations t1)) t2 = Some (Returned, t3)"
  obtain t4 where m: "push_modifies env (paths_with Modify (operations t1)) t3 = Some t4"
    using push_modifies_total by blast
  show ?thesis
    using a m by (simp add: push_def Let_def notify_def endSync_def)
qed

theorem push_clears_whole_log_witness:
  "\<not> syncing two_modifies
   \<and> pull (test_env False) (startSync two_modifies) = Some (False, startSync two_modifies)
   \<and> push_deletes (test_env False) (paths_with Delete (operations (startSync two_modifies)))
       (startSync two_modifies) = Some (True, startSync two_modifies)
   \<and> push_creates (test_env False) (paths_with Create (operations (startSync two_modifies)))
       (startSync two_modifies) = Some (Returned, startSync two_modifies)
   \<and> (\<exists>t'. push (test_env False) two_modifies = Some (Returned, t') \<and> operations t' = [])"
proof -
  have h1: "\<not> syncing two_modifies"
    by (simp add: two_modifies_def idle_plugin_def)
  have h2: "pull (test_env False) (startSync two_modifies) = Some (False, startSync two_modifies)"
    by (simp add: test_env_def)
  have h3: "push_deletes (test_env False) (paths_with Delete (operations (startSync two_modifies)))
       (startSync two_modifies) = Some (True, startSync two_modifies)"
    by (simp add: two_modifies_def idle_plugin_def startSync_def paths_with_def push_deletes_def)
  have h4: "push_creates (test_env False) (paths_with Create (operations (startSync two_modifies)))
       (startSync two_modifies) = Some (Returned, startSync two_modifies)"
    by (simp add: two_modifies_def idle_plugin_def startSync_def paths_with_def push_creates_def)
  from push_clears_whole_log [OF h1 h2 h3 h4] h1 h2 h3 h4 show ?thesis by blast
qed

text \<open>
  The push behind the confirmation dialog clears the log in the same way: once its phases have
  returned, the log is empty and the last notice is the plain one.
\<close>

lemma push_modal_clears_whole_log:
  assumes "\<not> syncing t0"
    and "confirm env t0 = Some (True, ta)"
    and "pull env (startSync ta) = Some (pulledFiles, t1)"
    and "push_modal_deletes env (paths_with Delete (operations t1)) (invert (driveIdToPath t1)) t1
           = Some (True, t2)"
    and "push_modal_creates env (paths_with Create (operations t1))
           \<lparr>completed = 0, pathsToIds = invert (driveIdToPath t1),
            plugin = setMessage ''Syncing (33%)'' t2\<rparr> = Some fr3"
    and "push_modal_modifies env (paths_with Modify (operations t1)) fr3 = Some fr4"
    and "push_modal_config env fr4 = Some fr5"
  shows "push_modal env t0
           = Some (Returned, notify ''Sync complete!'' (endSync ((plugin fr5)\<lparr>operations := []\<rparr>)))"
  using assms by (simp add: push_modal_def Let_def)

subsection \<open>The delete phase\<close>

lemma searchFiles_loop_calls:
  assumes "searchFiles_loop d data fl n = Some rn"
  shows "\<exists>urls. calls (snd rn) = calls n @ map GET urls"
proof (rule searchFiles_loop.raw_induct
         [where P = "\<lambda>d data fl n rn. \<exists>urls. calls (snd rn) = calls n @ map GET urls",
          OF _ assms], goal_cases)
  case (1 loop d data fl n rn)
  note IH = "1"(1) and body = "1"(2)
  show ?case
  proof (cases "truthy (nextPageToken fl)")
    case False
    with body have "snd rn = n" by auto
    then show ?thesis by simp
  next
    case True
    let ?url = "paginateFiles_url data (nextPageToken fl) 1000"
    obtain res n1 where p: "paginateFiles d data (nextPageToken fl) 1000 n = (res, n1)"
      by (cases "paginateFiles d data (nextPageToken fl) 1000 n")
    then have c: "calls n1 = calls n @ [GET ?url]"
      by (auto simp: paginateFiles_def sent_def Let_def split: prod.splits)
    show ?thesis
    proof (cases res)
      case None
      with body True p have "snd rn = n1" by auto
      with c have "calls (snd rn) = calls n @ map GET [?url]" by simp
      then show ?thesis by blast
    next
      case (Some page)
      with body True p
      have "loop d data \<lparr>nextPageToken = nextPageToken page, files = files fl @ files page\<rparr> n1
            = Some rn" by simp
      from IH [OF this] obtain urls where "calls (snd rn) = calls n1 @ map GET urls" ..
      with c have "calls (snd rn) = calls n @ map GET (?url # urls)" by simp
      then show ?thesis by blast
    qed
  qed
qed

lemma searchFiles_calls:
  "searchFiles d data inc n = Some (r, n') \<Longrightarrow> \<exists>urls. calls n' = calls n @ map GET urls"
proof -
  assume s: "searchFiles d data inc n = Some (r, n')"
  let ?url = "paginateFiles_url data None 1000"
  obtain res n1 where p: "paginateFiles d data None 1000 n = (res, n1)"
    by (cases "paginateFiles d data None 1000 n")
  then have c: "calls n1 = calls n @ [GET ?url]"
    by (auto simp: paginateFiles_def sent_def Let_def split: prod.splits)
  show ?thesis
  proof (cases res)
    case None
    with s p have "n' = n1" by (simp add: searchFiles_def)
    with c have "calls n' = calls n @ map GET [?url]" by simp
    then show ?thesis by blast
  next
    case (Some fl)
    with s p obtain r' where l: "searchFiles_loop d data fl n1 = Some (r', n')"
      by (auto simp: searchFiles_def split: option.splits)
    from searchFiles_loop_calls [OF l] obtain urls where "calls n' = calls n1 @ map GET urls"
      by auto
    with c have "calls n' = calls n @ map GET (?url # urls)" by simp
    then show ?thesis by blast
  qed
qed

lemma idsFromPaths_calls:
  "idsFromPaths d paths n = Some (r, n') \<Longrightarrow> \<exists>urls. calls n' = calls n @ map GET urls"
  by (auto simp: idsFromPaths_def split: option.splits dest: searchFiles_calls)

text \<open>
  Claim C2, as stated, fails. Two deletions are pending; the search finds a remote object for
  \<open>a.md\<close> and none for \<open>gone.md\<close>. The phase does not abort: one grouped delete is sent
  for the id that was found, and the cycle ends with an empty log.
\<close>

theorem unresolved_delete_path_does_not_abort:
  "map_option fst (idsFromPaths scripted (paths_with Delete (operations two_deletes)) (net two_deletes))
     = Some (Some [(''1'', Some ''a.md'')])
   \<and> map_option (\<lambda>ct. ([ids. POST_batch ids \<leftarrow> calls (net (snd ct))], operations (snd ct),
                        driveIdToPath (snd ct), notices (snd ct)))
       (push (test_env False) two_deletes)
     = Some ([[''1'']], [], [(''9'', ''gone.md'')], [Notice ''Sync complete!''])"
  by code_simp

text \<open>
  Claim C2, amended. When deletions are pending and the remote search that resolves their paths
  fails (\<open>idsFromPaths\<close> gives the absent result), \<open>push\<close> returns with the notice about
  fetching; the operation log and the index are as the pull left them, and the only requests sent
  since are the \<open>GET\<close> requests of the search: no delete request.
\<close>

theorem push_aborts_when_search_fails:
  "\<not> syncing t0 \<Longrightarrow> pull env (startSync t0) = Some (pulledFiles, t1) \<Longrightarrow>
   paths_with Delete (operations t1) \<noteq> [] \<Longrightarrow>
   idsFromPaths (drive env) (paths_with Delete (operations t1)) (net t1) = Some (None, n') \<Longrightarrow>
   \<exists>t'. push env t0 = Some (Returned, t')
        \<and> operations t' = operations t1 \<and> driveIdToPath t' = driveIdToPath t1
        \<and> notices t' = notices t1 @ [Notice ''An error occurred fetching Google Drive files.'']
        \<and> (\<exists>urls. calls (net t') = calls (net t1) @ map GET urls)"
proof -
  assume a: "\<not> syncing t0" "pull env (startSync t0) = Some (pulledFiles, t1)"
    "paths_with Delete (operations t1) \<noteq> []"
    and i: "idsFromPaths (drive env) (paths_with Delete (operations t1)) (net t1) = Some (None, n')"
  from idsFromPaths_calls [OF i] obtain urls where "calls n' = calls (net t1) @ map GET urls" ..
  then have "\<exists>urls. calls n' = calls (net t1) @ map GET urls" ..
  then show ?thesis
    using a i by (simp add: push_def push_deletes_def Let_def notify_def)
qed

theorem push_aborts_when_search_fails_witness:
  "\<not> syncing failed_search
   \<and> pull (test_env False) (startSync failed_search) = Some (False, startSync failed_search)
   \<and> paths_with Delete (operations (startSync failed_search)) \<noteq> []
   \<and> idsFromPaths (drive (test_env False)) (paths_with Delete (operations (startSync failed_search)))
        (net (startSync failed_search)) = Some (None, failed_search_net)
   \<and> (\<exists>t'. push (test_env False) failed_search = Some (Returned, t')
        \<and> operations t' = operations (startSync failed_search)
        \<and> driveIdToPath t' = driveIdToPath (startSync failed_search)
        \<and> notices t' = notices (startSync failed_search)
                        @ [Notice ''An error occurred fetching Google Drive files.'']
        \<and> (\<exists>urls. calls (net t') = calls (net (startSync failed_search)) @ map GET urls))"
proof -
  have h1: "\<not> syncing failed_search"
    by (simp add: failed_search_def idle_plugin_def)
  have h2: "pull (test_env False) (startSync failed_search) = Some (False, startSync failed_search)"
    by (simp add: test_env_def)
  have h3: "paths_with Delete (operations (startSync failed_search)) \<noteq> []"
    by (simp add: failed_search_def idle_plugin_def startSync_def paths_with_def)
  have h4: "idsFromPaths (drive (test_env False))
              (paths_with Delete (operations (startSync failed_search)))
              (net (startSync failed_search)) = Some (None, failed_search_net)"
    by (simp add: failed_search_def failed_search_net_def idle_plugin_def startSync_def
          paths_with_def test_env_def idsFromPaths_def searchFiles_def paginateFiles_def
          scripted_def sent_def)
  from push_aborts_when_search_fails [OF h1 h2 h3 h4] h1 h2 h3 h4 show ?thesis by blast
qed

lemma obj_get_delete_same: "obj_get (obj_delete ob k) k = None"
  by (induction ob) (auto simp: obj_get_def obj_delete_def)

lemma obj_get_delete_None: "obj_get ob k = None \<Longrightarrow> obj_get (obj_delete ob k') k = None"
  by (induction ob) (auto simp: obj_get_def obj_delete_def split: if_splits)

lemma obj_get_foldl_delete_None:
  "obj_get ob k = None \<Longrightarrow> obj_get (foldl obj_delete ob ks) k = None"
  by (induction ks arbitrary: ob) (simp_all add: obj_get_delete_None)

lemma obj_get_foldl_delete:
  "k \<in> set ks \<Longrightarrow> obj_get (foldl obj_delete ob ks) k = None"
proof (induction ks arbitrary: ob)
  case Nil
  then show ?case by simp
next
  case (Cons k' ks)
  show ?case
  proof (cases "k = k'")
    case True
    then show ?thesis by (simp add: obj_get_foldl_delete_None obj_get_delete_same)
  next
    case False
    with Cons show ?thesis by simp
  qed
qed

text \<open>
  The delete phase of \<open>push\<close> removes from the index the id of every object it deleted.
\<close>

lemma push_deletes_forgets_ids:
  assumes "push_deletes env deletes t = Some (True, t')"
    and "idsFromPaths (drive env) deletes (net t) = Some (Some ids, n')"
    and "deletes \<noteq> []"
    and "i \<in> fst ` set ids"
  shows "obj_get (driveIdToPath t') i = None"
proof -
  from assms(4) have ne: "ids \<noteq> []" by auto
  from assms(4) have m: "i \<in> set (map fst ids)" by simp
  obtain res n'' where b: "batchDelete (drive env) (map (\<lambda>ip. Some (fst ip)) ids) n' = (res, n'')"
    by (cases "batchDelete (drive env) (map (\<lambda>ip. Some (fst ip)) ids) n'")
  from assms(1,2,3) ne b
  have "driveIdToPath t' = foldl obj_delete (driveIdToPath t) (map fst ids)"
    by (cases res) (auto simp: push_deletes_def notify_def)
  with m show ?thesis by (simp add: obj_get_foldl_delete)
qed

text \<open>
  Claim C4 on the push behind the confirmation dialog. The index maps the id \<open>id1\<close> to
  \<open>old.md\<close>, whose deletion is pending. The grouped delete for \<open>id1\<close> is sent and
  answered, and the cycle completes, but the index still holds \<open>id1\<close>: the routine removes
  the keys named by the deleted paths, and the index is keyed by ids.
\<close>

theorem modal_delete_keeps_index_entry:
  "map_option (\<lambda>ct. ([ids. POST_batch ids \<leftarrow> calls (net (snd ct))], driveIdToPath (snd ct),
                      notices (snd ct)))
     (push_modal (test_modal_env False) one_delete)
   = Some ([[''id1'']], [(''id1'', ''old.md'')],
           [SetMessage ''Syncing (33%)'', Notice ''Sync complete!''])"
  by code_simp

subsection \<open>The create phase\<close>

text \<open>
  Claim C3 on \<open>push\<close>. For the pending folders \<open>a\<close> and \<open>a/b\<close> both batches are the
  same array and hold both folders: \<open>a/b\<close> (two segments) is in the first batch, \<open>a\<close> in the
  second. In the cycle each folder is created twice, and the first creation of \<open>a/b\<close> is sent
  with the vault root as parent, in the wave in which \<open>a\<close> is created.
\<close>

theorem fill_shares_one_batch:
  "folder_batches [local_folder ''a'' ''a'' ''/'', local_folder ''a/b'' ''b'' ''a'']
     = Inr [[local_folder ''a'' ''a'' ''/'', local_folder ''a/b'' ''b'' ''a''],
            [local_folder ''a'' ''a'' ''/'', local_folder ''a/b'' ''b'' ''a'']]
   \<and> map_option (\<lambda>ct. ([(json_name j, json_parents j). POST_files j \<leftarrow> calls (net (snd ct))],
                        driveIdToPath (snd ct)))
       (push (test_env False) two_folders)
     = Some ([(''a'', Some [''root'']), (''b'', Some [''root'']),
              (''a'', Some [''root'']), (''b'', Some [''A1''])],
             [(''A1'', ''a''), (''B1'', ''a/b''), (''A2'', ''a''), (''B2'', ''a/b'')])"
  by code_simp

subsection \<open>The final notice\<close>

text \<open>
  When all phases of \<open>push\<close> are gone through, its last notice says whether the pull routine
  reported pulled files.
\<close>

lemma push_final_notice:
  assumes "\<not> syncing t0"
    and "pull env (startSync t0) = Some (pulledFiles, t1)"
    and "push_deletes env (paths_with Delete (operations t1)) t1 = Some (True, t2)"
    and "push_creates env (paths_with Create (operations t1)) t2 = Some (Returned, t3)"
    and "push_modifies env (paths_with Modify (operations t1)) t3 = Some t4"
  shows "push env t0 =
           Some (Returned,
             notify (if pulledFiles
                     then ''Sync complete, but some files were pulled from Google Drive, so you should reload Obsidian.''
                     else ''Sync complete!'')
               (endSync (t4\<lparr>operations := []\<rparr>)))"
  using assms by (simp add: push_def Let_def)

text \<open>
  Claim C6 on the push behind the confirmation dialog. The pull routine reports pulled files;
  the cycle goes through all phases and ends with the plain notice: nothing tells the user to
  reload.
\<close>

theorem modal_push_never_reports_pulled_files:
  "map_option fst (pull (test_modal_env True) (startSync nothing_pending)) = Some True
   \<and> map_option (\<lambda>ct. (fst ct, notices (snd ct))) (push_modal (test_modal_env True) nothing_pending)
     = Some (Returned, [SetMessage ''Syncing (33%)'', Notice ''Sync complete!''])"
  by code_simp

end
